theory Spec2Isabelle
  imports Complex_Main "HOL-Library.Word" "HOL-Library.Signed_Division"
begin

unbundle bit_operations_syntax

section \<open>The MAG3110 compass driver of the micro:bit runtime\<close>

text \<open>
  This theory embeds \<^verbatim>\<open>source/MicroBitCompass.cpp\<close>: the constructor, the register
  access layer, \<^verbatim>\<open>heading\<close>, \<^verbatim>\<open>idleTick\<close> and the calibration operations.
  The object's fields are a record, the hardware and the runtime it talks to (the
  sensor's register file, the I2C traffic, the event bus, the tick counter, the
  data-ready pin) are a second record that every operation takes and returns.
\<close>

subsection \<open>Constants of the header\<close>

text \<open>
  \<^verbatim>\<open>MicroBit.h\<close> and the headers it includes are not part of the sources at hand, so
  the preprocessor constants that \<^verbatim>\<open>MicroBitCompass.cpp\<close> uses are parameters of
  the model, collected in one record. The widths follow the types the source gives to
  the places where the constants are used: register numbers and register values are
  \<^verbatim>\<open>uint8_t\<close>, event sources and event values are \<^verbatim>\<open>uint16_t\<close>, the sentinels
  are returned as \<^verbatim>\<open>int\<close>.
\<close>

record header =
  MICROBIT_COMPASS_STATUS_CALIBRATED :: "8 word"
  MICROBIT_COMPASS_STATUS_CALIBRATING :: "8 word"
  MICROBIT_COMPASS_CALIBRATE_PERIOD :: "32 word"
  MICROBIT_COMPASS_IS_CALIBRATING :: int
  MICROBIT_COMPASS_CALIBRATE_REQUIRED :: int
  MICROBIT_COMPASS_EVT_CAL_REQUIRED :: "16 word"
  MICROBIT_COMPASS_EVT_CAL_START :: "16 word"
  MICROBIT_COMPASS_EVT_CAL_END :: "16 word"
  MICROBIT_FLAG_COMPASS_RUNNING :: "32 word"
  MAG_OUT_X_MSB :: "8 word"
  MAG_OUT_Y_MSB :: "8 word"
  MAG_OUT_Z_MSB :: "8 word"
  MAG_WHOAMI :: "8 word"
  MAG_OFF_X_MSB :: "8 word"
  MAG_OFF_X_LSB :: "8 word"
  MAG_OFF_Y_MSB :: "8 word"
  MAG_OFF_Y_LSB :: "8 word"
  MAG_OFF_Z_MSB :: "8 word"
  MAG_OFF_Z_LSB :: "8 word"
  MAG_CTRL_REG1 :: "8 word"
  MAG_CTRL_REG2 :: "8 word"

text \<open>
  What the theorems need of the two status bits. The constructor writes the literal
  \<^verbatim>\<open>0x01\<close> into \<^verbatim>\<open>status\<close> under the comment "we presume it's calibrated", which
  fixes the calibrated bit; the calibrating bit is any non-zero mask that does not
  overlap it.
\<close>

definition status_bits_ok :: "header \<Rightarrow> bool" where
  "status_bits_ok h \<longleftrightarrow>
     MICROBIT_COMPASS_STATUS_CALIBRATED h = 0x01 \<and>
     MICROBIT_COMPASS_STATUS_CALIBRATING h \<noteq> 0 \<and>
     MICROBIT_COMPASS_STATUS_CALIBRATING h AND MICROBIT_COMPASS_STATUS_CALIBRATED h = 0"

text \<open>
  One header to evaluate the model at: the register numbers of the MAG3110 register
  map, status bits 1 and 2, a calibration window of 10000 ticks.
\<close>

definition example_header :: header where
  "example_header =
     \<lparr> MICROBIT_COMPASS_STATUS_CALIBRATED = 0x01,
       MICROBIT_COMPASS_STATUS_CALIBRATING = 0x02,
       MICROBIT_COMPASS_CALIBRATE_PERIOD = 10000,
       MICROBIT_COMPASS_IS_CALIBRATING = - 2,
       MICROBIT_COMPASS_CALIBRATE_REQUIRED = - 1,
       MICROBIT_COMPASS_EVT_CAL_REQUIRED = 1,
       MICROBIT_COMPASS_EVT_CAL_START = 2,
       MICROBIT_COMPASS_EVT_CAL_END = 3,
       MICROBIT_FLAG_COMPASS_RUNNING = 0x08,
       MAG_OUT_X_MSB = 0x01,
       MAG_OUT_Y_MSB = 0x03,
       MAG_OUT_Z_MSB = 0x05,
       MAG_WHOAMI = 0x07,
       MAG_OFF_X_MSB = 0x09,
       MAG_OFF_X_LSB = 0x0A,
       MAG_OFF_Y_MSB = 0x0B,
       MAG_OFF_Y_LSB = 0x0C,
       MAG_OFF_Z_MSB = 0x0D,
       MAG_OFF_Z_LSB = 0x0E,
       MAG_CTRL_REG1 = 0x10,
       MAG_CTRL_REG2 = 0x11 \<rparr>"

subsection \<open>Data\<close>

text \<open>A reading of the three axes, each a signed 16-bit integer.\<close>

record CompassSample =
  x :: "16 word"
  y :: "16 word"
  z :: "16 word"

text \<open>
  The fields of a \<^verbatim>\<open>MicroBitCompass\<close> object. The field \<^verbatim>\<open>id\<close> is \<open>id_compass\<close>
  here, \<open>id\<close> being the identity function of HOL. The status byte is 8 bits, the
  start time of an asynchronous calibration is an unsigned 32-bit tick count. The pin
  \<^verbatim>\<open>int1\<close> belongs to the hardware and is a field of the record below.
\<close>

record MicroBitCompass =
  id_compass :: "16 word"
  address :: "16 word"
  status :: "8 word"
  eventStartTime :: "32 word"
  average :: CompassSample
  sample :: CompassSample
  minSample :: CompassSample
  maxSample :: CompassSample

text \<open>
  What the driver reaches outside the object:
  \<^item> \<open>regs\<close>, the register file of the sensor that answers at the compass's address;
  \<^item> \<open>bus\<close>, the two-byte command writes sent so far, oldest first, each with the
    bus address, the register and the value;
  \<^item> \<open>events\<close>, the events fired so far, oldest first, each with source and value;
  \<^item> \<open>ticks\<close>, the global tick counter; \<open>int1\<close>, the data-ready pin;
    \<open>flags\<close>, the flag word of the global device object.
  The sensor's output registers, the pin and the tick counter change between calls
  by the environment; in the theorems the record is arbitrary at every call.
\<close>

record world =
  regs :: "8 word \<Rightarrow> 8 word"
  bus :: "(16 word \<times> 8 word \<times> 8 word) list"
  events :: "(16 word \<times> 16 word) list"
  ticks :: "32 word"
  int1 :: bool
  flags :: "32 word"

subsection \<open>Events and register access\<close>

text \<open>
  Modelled from the spec: the class \<^verbatim>\<open>MicroBitEvent\<close> is declared outside
  \<^verbatim>\<open>MicroBitCompass.cpp\<close>. Constructing one emits a notification tagged with the
  event source; here it is appended to the events.
\<close>

definition MicroBitEvent :: "16 word \<Rightarrow> 16 word \<Rightarrow> world \<Rightarrow> world" where
  "MicroBitEvent source val w = w\<lparr>events := events w @ [(source, val)]\<rparr>"

text \<open>
  Modelled from the spec: the bus transport \<^verbatim>\<open>uBit.i2c\<close> and the sensor behind it
  are outside \<^verbatim>\<open>MicroBitCompass.cpp\<close>. The transport is taken as reliable and
  blocking; the sensor is a register file, in which a two-byte command write stores
  the value at the register named, and from which a read after a register number
  returns that register and the ones after it.

  \<^verbatim>\<open>writeCommand\<close> sends the register number and the value to the sensor.
\<close>

definition writeCommand :: "MicroBitCompass \<Rightarrow> 8 word \<Rightarrow> 8 word \<Rightarrow> world \<Rightarrow> world" where
  "writeCommand c reg val w =
     w\<lparr>regs := (regs w)(reg := val), bus := bus w @ [(address c, reg, val)]\<rparr>"

text \<open>
  \<^verbatim>\<open>read16\<close> sends the register number and reads two bytes: the sensor answers with
  the addressed register and the one after it. The bytes are promoted to \<^verbatim>\<open>int\<close>,
  combined as \<^verbatim>\<open>cmd[1] | (cmd[0] << 8)\<close> and converted to \<^verbatim>\<open>int16_t\<close>.
\<close>

definition read16 :: "world \<Rightarrow> 8 word \<Rightarrow> 16 word" where
  "read16 w reg =
     (let cmd0 = regs w reg; cmd1 = regs w (reg + 1)
      in word_of_int (uint cmd1 OR push_bit 8 (uint cmd0)))"

text \<open>\<^verbatim>\<open>read8\<close> reads one byte as \<^verbatim>\<open>int8_t\<close> and returns it as \<^verbatim>\<open>int16_t\<close>.\<close>

definition read8 :: "world \<Rightarrow> 8 word \<Rightarrow> 16 word" where
  "read8 w reg = word_of_int (sint (regs w reg))"

definition whoAmI :: "header \<Rightarrow> world \<Rightarrow> int" where
  "whoAmI h w = uint (regs w (MAG_WHOAMI h))"

subsection \<open>Status queries and accessors\<close>

text \<open>Both queries return the masked status byte as an \<^verbatim>\<open>int\<close>.\<close>

definition isCalibrated :: "header \<Rightarrow> MicroBitCompass \<Rightarrow> int" where
  "isCalibrated h c = uint (status c AND MICROBIT_COMPASS_STATUS_CALIBRATED h)"

definition isCalibrating :: "header \<Rightarrow> MicroBitCompass \<Rightarrow> int" where
  "isCalibrating h c = uint (status c AND MICROBIT_COMPASS_STATUS_CALIBRATING h)"

definition isIdleCallbackNeeded :: "world \<Rightarrow> int" where
  "isIdleCallbackNeeded w = (if int1 w then 1 else 0)"

definition getX :: "MicroBitCompass \<Rightarrow> int" where
  "getX c = sint (x (sample c))"

definition getY :: "MicroBitCompass \<Rightarrow> int" where
  "getY c = sint (y (sample c))"

definition getZ :: "MicroBitCompass \<Rightarrow> int" where
  "getZ c = sint (z (sample c))"

subsection \<open>The constructor\<close>

text \<open>
  The initialiser list value-initialises \<^verbatim>\<open>average\<close> and \<^verbatim>\<open>sample\<close> only, so what
  \<^verbatim>\<open>minSample\<close> and \<^verbatim>\<open>maxSample\<close> hold after construction is not fixed by this
  file: the two are arguments.
\<close>

definition zeroSample :: CompassSample where
  "zeroSample = \<lparr>x = 0, y = 0, z = 0\<rparr>"

definition MicroBitCompass_new ::
  "header \<Rightarrow> 16 word \<Rightarrow> 16 word \<Rightarrow> CompassSample \<Rightarrow> CompassSample \<Rightarrow> world \<Rightarrow>
   MicroBitCompass \<times> world" where
  "MicroBitCompass_new h ident addr min0 max0 w =
     (let c = \<lparr>id_compass = ident, address = addr, status = 0x01, eventStartTime = 0,
               average = zeroSample, sample = zeroSample,
               minSample = min0, maxSample = max0\<rparr>;
          w = writeCommand c (MAG_CTRL_REG2 h) 0xA0 w;
          w = writeCommand c (MAG_CTRL_REG1 h) 0x61 w;
          c = c\<lparr>average := \<lparr>x = read16 w (MAG_OFF_X_MSB h),
                             y = read16 w (MAG_OFF_Y_MSB h),
                             z = read16 w (MAG_OFF_Z_MSB h)\<rparr>\<rparr>;
          c = (if x (average c) = 0 \<and> y (average c) = 0 \<and> z (average c) = 0
               then c\<lparr>status := status c AND NOT (MICROBIT_COMPASS_STATUS_CALIBRATED h)\<rparr>
               else c);
          w = w\<lparr>flags := flags w OR MICROBIT_FLAG_COMPASS_RUNNING h\<rparr>
      in (c, w))"

subsection \<open>Calibration\<close>

text \<open>
  \<^verbatim>\<open>calibrateEnd\<close>. The sum of two \<^verbatim>\<open>int16_t\<close> is computed in \<^verbatim>\<open>int\<close>, where it
  cannot overflow, divided by two with C's division (\<open>sdiv\<close>, truncating toward
  zero) and converted back to \<^verbatim>\<open>int16_t\<close>. The low byte written is
  \<^verbatim>\<open>(uint8_t)average.x\<close>, the high byte \<^verbatim>\<open>(uint8_t)(average.x >> 8)\<close>, the shift
  being the arithmetic shift of the promoted value.
\<close>

definition midpoint :: "16 word \<Rightarrow> 16 word \<Rightarrow> 16 word" where
  "midpoint hi lo = word_of_int ((sint hi + sint lo) sdiv 2)"

definition low_byte :: "16 word \<Rightarrow> 8 word" where
  "low_byte v = word_of_int (sint v)"

definition high_byte :: "16 word \<Rightarrow> 8 word" where
  "high_byte v = word_of_int (sint v div 2 ^ 8)"

definition calibrateEnd ::
  "header \<Rightarrow> MicroBitCompass \<times> world \<Rightarrow> MicroBitCompass \<times> world" where
  "calibrateEnd h = (\<lambda>(c, w).
     let c = c\<lparr>average := \<lparr>x = midpoint (x (maxSample c)) (x (minSample c)),
                             y = midpoint (y (maxSample c)) (y (minSample c)),
                             z = midpoint (z (maxSample c)) (z (minSample c))\<rparr>\<rparr>;
         c = c\<lparr>status := status c AND NOT (MICROBIT_COMPASS_STATUS_CALIBRATING h)\<rparr>;
         c = c\<lparr>status := status c OR MICROBIT_COMPASS_STATUS_CALIBRATED h\<rparr>;
         w = writeCommand c (MAG_OFF_X_LSB h) (low_byte (x (average c))) w;
         w = writeCommand c (MAG_OFF_X_MSB h) (high_byte (x (average c))) w;
         w = writeCommand c (MAG_OFF_Y_LSB h) (low_byte (y (average c))) w;
         w = writeCommand c (MAG_OFF_Y_MSB h) (high_byte (y (average c))) w;
         w = writeCommand c (MAG_OFF_Z_LSB h) (low_byte (z (average c))) w;
         w = writeCommand c (MAG_OFF_Z_MSB h) (high_byte (z (average c))) w;
         w = MicroBitEvent (id_compass c) (MICROBIT_COMPASS_EVT_CAL_END h) w
     in (c, w))"

definition calibrateStart ::
  "header \<Rightarrow> MicroBitCompass \<times> world \<Rightarrow> MicroBitCompass \<times> world" where
  "calibrateStart h = (\<lambda>(c, w).
     if isCalibrating h c \<noteq> 0 then (c, w)
     else
       let c = c\<lparr>status := status c OR MICROBIT_COMPASS_STATUS_CALIBRATING h\<rparr>;
           c = c\<lparr>minSample := sample c\<rparr>;
           c = c\<lparr>maxSample := sample c\<rparr>;
           w = MicroBitEvent (id_compass c) (MICROBIT_COMPASS_EVT_CAL_START h) w
       in (c, w))"

definition calibrateAsync ::
  "header \<Rightarrow> MicroBitCompass \<times> world \<Rightarrow> MicroBitCompass \<times> world" where
  "calibrateAsync h = (\<lambda>(c, w).
     calibrateStart h (c\<lparr>eventStartTime := ticks w\<rparr>, w))"

definition clearCalibration ::
  "header \<Rightarrow> MicroBitCompass \<times> world \<Rightarrow> MicroBitCompass \<times> world" where
  "clearCalibration h = (\<lambda>(c, w).
     let w = writeCommand c (MAG_OFF_X_LSB h) 0 w;
         w = writeCommand c (MAG_OFF_X_MSB h) 0 w;
         w = writeCommand c (MAG_OFF_Y_LSB h) 0 w;
         w = writeCommand c (MAG_OFF_Y_MSB h) 0 w;
         w = writeCommand c (MAG_OFF_Z_LSB h) 0 w;
         w = writeCommand c (MAG_OFF_Z_MSB h) 0 w;
         c = c\<lparr>status := status c AND NOT (MICROBIT_COMPASS_STATUS_CALIBRATED h)\<rparr>
     in (c, w))"

subsection \<open>The periodic poll\<close>

text \<open>\<^verbatim>\<open>min\<close> and \<^verbatim>\<open>max\<close> of two \<^verbatim>\<open>int16_t\<close>: the comparison is signed.\<close>

definition min16 :: "16 word \<Rightarrow> 16 word \<Rightarrow> 16 word" where
  "min16 a b = (if a <s b then a else b)"

definition max16 :: "16 word \<Rightarrow> 16 word \<Rightarrow> 16 word" where
  "max16 a b = (if b <s a then a else b)"

text \<open>
  \<^verbatim>\<open>idleTick\<close>. The sum \<^verbatim>\<open>eventStartTime + MICROBIT_COMPASS_CALIBRATE_PERIOD\<close> is
  unsigned 32-bit and wraps around; the comparison with \<^verbatim>\<open>ticks\<close> is unsigned and
  strict.
\<close>

definition idleTick ::
  "header \<Rightarrow> MicroBitCompass \<times> world \<Rightarrow> MicroBitCompass \<times> world" where
  "idleTick h = (\<lambda>(c, w).
     if int1 w then
       let c = c\<lparr>sample := \<lparr>x = read16 w (MAG_OUT_X_MSB h),
                             y = read16 w (MAG_OUT_Y_MSB h),
                             z = read16 w (MAG_OUT_Z_MSB h)\<rparr>\<rparr>
       in if status c AND MICROBIT_COMPASS_STATUS_CALIBRATING h \<noteq> 0 then
            let c = c\<lparr>minSample := \<lparr>x = min16 (x (sample c)) (x (minSample c)),
                                     y = min16 (y (sample c)) (y (minSample c)),
                                     z = min16 (z (sample c)) (z (minSample c))\<rparr>\<rparr>;
                c = c\<lparr>maxSample := \<lparr>x = max16 (x (sample c)) (x (maxSample c)),
                                     y = max16 (y (sample c)) (y (maxSample c)),
                                     z = max16 (z (sample c)) (z (maxSample c))\<rparr>\<rparr>
            in if eventStartTime c \<noteq> 0 \<and>
                  ticks w > eventStartTime c + MICROBIT_COMPASS_CALIBRATE_PERIOD h
               then calibrateEnd h (c\<lparr>eventStartTime := 0\<rparr>, w)
               else (c, w)
          else (c, w)
     else (c, w))"

subsection \<open>Heading\<close>

text \<open>
  The C library's \<^verbatim>\<open>atan2\<close>, on real numbers: the angle of the point \<open>(b, a)\<close> in
  \<open>(-\<pi>, \<pi>]\<close>, and 0 at the origin.

  The source takes \<^verbatim>\<open>atan2\<close> and the conversion to degrees in \<^verbatim>\<open>double\<close>, stores
  the bearing in a \<^verbatim>\<open>float\<close> and rounds \<^verbatim>\<open>bearing + 360.0\<close> to \<^verbatim>\<open>float\<close> again.
  Here that arithmetic is exact, on \<open>real\<close>, with \<^verbatim>\<open>PI\<close> as \<open>\<pi>\<close>: rounding is not
  part of the model. Where \<open>360 - bearing\<close> is within a rounding error of a whole
  number the program's result can differ by one from the value computed here (for the
  sample \<open>(315, -11)\<close> and offset zero the exact value is just below 2, and the
  bearing rounded to \<^verbatim>\<open>float\<close> is 358). So the degree branch below stands for the
  program only in statements that such a rounding leaves as they are: the bounds of
  the result and its value where the bearing is zero or well inside a degree.
\<close>

definition atan2 :: "real \<Rightarrow> real \<Rightarrow> real" where
  "atan2 a b =
     (if 0 < b then arctan (a / b)
      else if b < 0 then (if 0 \<le> a then arctan (a / b) + pi else arctan (a / b) - pi)
      else if 0 < a then pi / 2
      else if a < 0 then - (pi / 2)
      else 0)"

text \<open>The conversion \<^verbatim>\<open>(int)\<close> of a floating-point value drops the fraction.\<close>

definition int_of_double :: "real \<Rightarrow> int" where
  "int_of_double r = (if 0 \<le> r then \<lfloor>r\<rfloor> else - \<lfloor>- r\<rfloor>)"

text \<open>
  The differences \<^verbatim>\<open>sample.y - average.y\<close> and \<^verbatim>\<open>sample.x - average.x\<close> are taken
  in \<^verbatim>\<open>int\<close>, after promotion, and cannot overflow.
\<close>

definition bearing :: "MicroBitCompass \<Rightarrow> real" where
  "bearing c =
     (let b = atan2 (real_of_int (sint (y (sample c)) - sint (y (average c))))
                    (real_of_int (sint (x (sample c)) - sint (x (average c)))) * 180 / pi
      in if b < 0 then b + 360 else b)"

definition heading :: "header \<Rightarrow> MicroBitCompass \<times> world \<Rightarrow> int \<times> world" where
  "heading h = (\<lambda>(c, w).
     if status c AND MICROBIT_COMPASS_STATUS_CALIBRATING h \<noteq> 0
     then (MICROBIT_COMPASS_IS_CALIBRATING h, w)
     else if status c AND MICROBIT_COMPASS_STATUS_CALIBRATED h = 0
     then (MICROBIT_COMPASS_CALIBRATE_REQUIRED h,
           MicroBitEvent (id_compass c) (MICROBIT_COMPASS_EVT_CAL_REQUIRED h) w)
     else (int_of_double (360 - bearing c), w))"

subsection \<open>Polling over time\<close>

text \<open>
  Between two calls of \<^verbatim>\<open>idleTick\<close> the environment moves the tick counter, drives
  the data-ready pin and refreshes the sensor's registers. One poll is one such change
  followed by the call; a list of polls is run oldest first.
\<close>

definition poll ::
  "header \<Rightarrow> 32 word \<times> bool \<times> (8 word \<Rightarrow> 8 word) \<Rightarrow>
   MicroBitCompass \<times> world \<Rightarrow> MicroBitCompass \<times> world" where
  "poll h = (\<lambda>(t, ready, r) (c, w). idleTick h (c, w\<lparr>ticks := t, int1 := ready, regs := r\<rparr>))"

fun polls ::
  "header \<Rightarrow> (32 word \<times> bool \<times> (8 word \<Rightarrow> 8 word)) list \<Rightarrow>
   MicroBitCompass \<times> world \<Rightarrow> MicroBitCompass \<times> world" where
  "polls h [] s = s"
| "polls h (e # es) s = polls h es (poll h e s)"

subsection \<open>Predicates of the statements\<close>


text \<open>
  On the sensor the low byte of each offset follows its high byte, which is what makes
  \<^verbatim>\<open>read16\<close> at the high byte's register return the whole offset.
\<close>

definition offset_regs_adjacent :: "header \<Rightarrow> bool" where
  "offset_regs_adjacent h \<longleftrightarrow>
     MAG_OFF_X_LSB h = MAG_OFF_X_MSB h + 1 \<and>
     MAG_OFF_Y_LSB h = MAG_OFF_Y_MSB h + 1 \<and>
     MAG_OFF_Z_LSB h = MAG_OFF_Z_MSB h + 1"

subsection \<open>Concrete inputs\<close>

definition example_world :: world where
  "example_world =
     \<lparr>regs = (\<lambda>_. 0), bus = [], events = [], ticks = 5, int1 = True, flags = 0\<rparr>"

definition example_compass :: MicroBitCompass where
  "example_compass =
     \<lparr>id_compass = 5, address = 0x1D, status = 0x00, eventStartTime = 0,
      average = zeroSample, sample = zeroSample,
      minSample = \<lparr>x = - 5, y = 7, z = - 8\<rparr>, maxSample = \<lparr>x = 0, y = 10, z = - 1\<rparr>\<rparr>"

text \<open>A sensor whose X offset registers hold 300 (\<open>0x012C\<close>).\<close>

definition calibrated_world :: world where
  "calibrated_world =
     \<lparr>regs = (\<lambda>_. 0)(0x09 := 0x01, 0x0A := 0x2C), bus = [], events = [], ticks = 5,
      int1 = True, flags = 0\<rparr>"


section \<open>Auxiliary facts\<close>

subsection \<open>Status bits\<close>

lemma disjoint_bits:
  fixes g d :: "8 word"
  assumes "g AND d = 0" and "bit g n"
  shows "\<not> bit d n"
proof
  assume "bit d n"
  with assms(2) have "bit (g AND d) n" by (simp add: bit_and_iff)
  with assms(1) show False by simp
qed

lemma clear_then_test: "(s AND NOT g) AND g = (0 :: 8 word)"
  by (rule bit_word_eqI) (simp add: bit_simps)

lemma set_then_test: "(s OR g) AND g = (g :: 8 word)"
  by (rule bit_word_eqI) (auto simp add: bit_simps)

lemma clear_other_bit:
  fixes s g d :: "8 word"
  assumes "g AND d = 0"
  shows "(s AND NOT d) AND g = s AND g"
  by (rule bit_word_eqI) (auto simp add: bit_simps dest: disjoint_bits [OF assms])

lemma set_other_bit:
  fixes s g d :: "8 word"
  assumes "g AND d = 0"
  shows "(s OR d) AND g = s AND g"
  by (rule bit_word_eqI) (auto simp add: bit_simps dest: disjoint_bits [OF assms])

lemma status_after_end:
  fixes s g d :: "8 word"
  assumes "g AND d = 0"
  shows "((s AND NOT g) OR d) AND g = 0" "((s AND NOT g) OR d) AND d = d"
  by (simp_all add: set_other_bit [OF assms] clear_then_test set_then_test)

lemma isCalibrating_iff:
  "isCalibrating h c \<noteq> 0 \<longleftrightarrow> status c AND MICROBIT_COMPASS_STATUS_CALIBRATING h \<noteq> 0"
  by (simp add: isCalibrating_def uint_0_iff)

lemma isCalibrated_iff:
  "isCalibrated h c \<noteq> 0 \<longleftrightarrow> status c AND MICROBIT_COMPASS_STATUS_CALIBRATED h \<noteq> 0"
  by (simp add: isCalibrated_def uint_0_iff)

lemma status_bits_okD:
  assumes "status_bits_ok h"
  shows "MICROBIT_COMPASS_STATUS_CALIBRATING h AND MICROBIT_COMPASS_STATUS_CALIBRATED h = 0"
    and "MICROBIT_COMPASS_STATUS_CALIBRATED h \<noteq> 0"
    and "MICROBIT_COMPASS_STATUS_CALIBRATING h \<noteq> 0"
    and "MICROBIT_COMPASS_STATUS_CALIBRATED h = 1"
proof -
  from assms show "MICROBIT_COMPASS_STATUS_CALIBRATING h AND MICROBIT_COMPASS_STATUS_CALIBRATED h = 0"
    unfolding status_bits_ok_def by blast
  from assms show "MICROBIT_COMPASS_STATUS_CALIBRATING h \<noteq> 0"
    unfolding status_bits_ok_def by blast
  from assms show one: "MICROBIT_COMPASS_STATUS_CALIBRATED h = 1"
    unfolding status_bits_ok_def by blast
  then show "MICROBIT_COMPASS_STATUS_CALIBRATED h \<noteq> 0" by simp
qed

lemma example_header_ok: "status_bits_ok example_header"
  by (simp add: status_bits_ok_def example_header_def)

lemma example_header_adjacent: "offset_regs_adjacent example_header"
  by (simp add: offset_regs_adjacent_def example_header_def)

subsection \<open>Midpoints and bytes\<close>

text \<open>The midpoint of two 16-bit values is again a 16-bit value: the conversion back loses nothing.\<close>

lemma sint_midpoint: "sint (midpoint a b) = (sint a + sint b) sdiv 2"
proof -
  have a: "- (2 ^ 15) \<le> sint a" "sint a < 2 ^ 15"
    using sint_ge [of a] sint_lt [of a] by simp_all
  have b: "- (2 ^ 15) \<le> sint b" "sint b < 2 ^ 15"
    using sint_ge [of b] sint_lt [of b] by simp_all
  define k where "k = sint a + sint b"
  have k: "- (2 ^ 16) \<le> k" "k < 2 ^ 16" using a b by (simp_all add: k_def)
  have "- (2 ^ 15) \<le> k sdiv 2 \<and> k sdiv 2 < 2 ^ 15"
    using k by (auto simp: signed_divide_int_def sgn_if)
  then have "sint (word_of_int (k sdiv 2) :: 16 word) = k sdiv 2"
    by (simp add: sint_sbintrunc' signed_take_bit_int_eq_self)
  then show ?thesis by (simp add: midpoint_def k_def)
qed

text \<open>Division by two with \<open>sdiv\<close> drops the fraction on both sides of zero.\<close>

lemma sdiv_two: "k sdiv 2 = (if 0 \<le> k then k div 2 else - ((- k) div 2))" for k :: int
  by (simp add: signed_divide_int_def sgn_if)

lemma low_byte_ucast: "low_byte v = ucast v"
  unfolding low_byte_def
  by (rule bit_word_eqI) (auto simp: bit_simps)

lemma high_byte_ucast: "high_byte v = ucast (drop_bit 8 v)"
proof -
  have "sint v div 2 ^ 8 = drop_bit 8 (sint v)" by (simp only: drop_bit_eq_div)
  then have "high_byte v = word_of_int (drop_bit 8 (sint v))" by (simp only: high_byte_def)
  also have "\<dots> = ucast (drop_bit 8 v)"
    by (rule bit_word_eqI) (auto simp: bit_simps)
  finally show ?thesis .
qed

lemma high_low_bytes: "word_cat (high_byte v) (low_byte v) = v"
  unfolding high_byte_ucast low_byte_ucast
  by (rule bit_word_eqI) (auto simp: bit_simps)

subsection \<open>The effect of \<open>calibrateEnd\<close>\<close>

lemma calibrateEnd_compass:
  "fst (calibrateEnd h (c, w)) =
     c\<lparr>average := \<lparr>x = midpoint (x (maxSample c)) (x (minSample c)),
                    y = midpoint (y (maxSample c)) (y (minSample c)),
                    z = midpoint (z (maxSample c)) (z (minSample c))\<rparr>,
       status := (status c AND NOT (MICROBIT_COMPASS_STATUS_CALIBRATING h))
                   OR MICROBIT_COMPASS_STATUS_CALIBRATED h\<rparr>"
  by (simp add: calibrateEnd_def Let_def)

lemma calibrateEnd_bus:
  "bus (snd (calibrateEnd h (c, w))) =
     bus w @
     [(address c, MAG_OFF_X_LSB h, low_byte (midpoint (x (maxSample c)) (x (minSample c)))),
      (address c, MAG_OFF_X_MSB h, high_byte (midpoint (x (maxSample c)) (x (minSample c)))),
      (address c, MAG_OFF_Y_LSB h, low_byte (midpoint (y (maxSample c)) (y (minSample c)))),
      (address c, MAG_OFF_Y_MSB h, high_byte (midpoint (y (maxSample c)) (y (minSample c)))),
      (address c, MAG_OFF_Z_LSB h, low_byte (midpoint (z (maxSample c)) (z (minSample c)))),
      (address c, MAG_OFF_Z_MSB h, high_byte (midpoint (z (maxSample c)) (z (minSample c))))]"
  by (simp add: calibrateEnd_def Let_def writeCommand_def MicroBitEvent_def)

lemma calibrateEnd_events:
  "events (snd (calibrateEnd h (c, w))) =
     events w @ [(id_compass c, MICROBIT_COMPASS_EVT_CAL_END h)]"
  by (simp add: calibrateEnd_def Let_def writeCommand_def MicroBitEvent_def)

section \<open>The calibration offset\<close>

text \<open>
  Claim C3. For all minimum and maximum extents, in particular for those with the
  minimum below the maximum on every axis, \<^verbatim>\<open>calibrateEnd\<close> sets the offset of each
  axis to the sum of that axis's two extents divided by two, the division truncating
  toward zero (\<open>sdiv\<close>, see \<open>sdiv_two\<close>), and sends six command writes and no
  others: the low byte of the X offset to the X low-byte offset register, its high
  byte to the X high-byte register, then the same for Y and for Z.
\<close>

theorem calibrateEnd_offset:
  "sint (x (average (fst (calibrateEnd h (c, w))))) =
     (sint (x (minSample c)) + sint (x (maxSample c))) sdiv 2 \<and>
   sint (y (average (fst (calibrateEnd h (c, w))))) =
     (sint (y (minSample c)) + sint (y (maxSample c))) sdiv 2 \<and>
   sint (z (average (fst (calibrateEnd h (c, w))))) =
     (sint (z (minSample c)) + sint (z (maxSample c))) sdiv 2 \<and>
   bus (snd (calibrateEnd h (c, w))) =
     bus w @
     [(address c, MAG_OFF_X_LSB h, ucast (x (average (fst (calibrateEnd h (c, w)))))),
      (address c, MAG_OFF_X_MSB h, ucast (drop_bit 8 (x (average (fst (calibrateEnd h (c, w))))))),
      (address c, MAG_OFF_Y_LSB h, ucast (y (average (fst (calibrateEnd h (c, w)))))),
      (address c, MAG_OFF_Y_MSB h, ucast (drop_bit 8 (y (average (fst (calibrateEnd h (c, w))))))),
      (address c, MAG_OFF_Z_LSB h, ucast (z (average (fst (calibrateEnd h (c, w)))))),
      (address c, MAG_OFF_Z_MSB h, ucast (drop_bit 8 (z (average (fst (calibrateEnd h (c, w)))))))]"
  by (simp add: calibrateEnd_compass calibrateEnd_bus sint_midpoint add.commute
      low_byte_ucast high_byte_ucast)

text \<open>
  At extents \<open>(-5, 7, -8)\<close> and \<open>(0, 10, -1)\<close> the offset is \<open>(-2, 8, -4)\<close>: the
  halves of \<open>-5\<close>, \<open>17\<close> and \<open>-9\<close>, each rounded toward zero.
\<close>

theorem calibrateEnd_offset_witness:
  "sint (x (average (fst (calibrateEnd example_header (example_compass, example_world))))) = - 2 \<and>
   sint (y (average (fst (calibrateEnd example_header (example_compass, example_world))))) = 8 \<and>
   sint (z (average (fst (calibrateEnd example_header (example_compass, example_world))))) = - 4 \<and>
   bus (snd (calibrateEnd example_header (example_compass, example_world))) =
     [(0x1D, 0x0A, 0xFE), (0x1D, 0x09, 0xFF), (0x1D, 0x0C, 0x08), (0x1D, 0x0B, 0x00),
      (0x1D, 0x0E, 0xFC), (0x1D, 0x0D, 0xFF)]"
proof -
  have avg: "average (fst (calibrateEnd example_header (example_compass, example_world))) =
      \<lparr>x = - 2, y = 8, z = - 4\<rparr>"
    by (simp add: calibrateEnd_compass example_compass_def midpoint_def signed_divide_int_def)
  have bytes:
    "ucast (- 2 :: 16 word) = (0xFE :: 8 word)"
    "ucast (drop_bit 8 (- 2 :: 16 word)) = (0xFF :: 8 word)"
    "ucast (drop_bit 8 (8 :: 16 word)) = (0 :: 8 word)"
    "ucast (- 4 :: 16 word) = (0xFC :: 8 word)"
    "ucast (drop_bit 8 (- 4 :: 16 word)) = (0xFF :: 8 word)"
    by code_simp+
  show ?thesis
    using calibrateEnd_offset [of example_header example_compass example_world]
    unfolding avg
    by (simp add: bytes example_compass_def example_world_def example_header_def
        signed_divide_int_def)
qed

section \<open>Ending a calibration that was never started\<close>

lemma read16_of_bytes:
  "word_of_int (uint (low_byte v) OR push_bit 8 (uint (high_byte v))) = v"
  unfolding high_byte_ucast low_byte_ucast
  by (rule bit_word_eqI) (auto simp: bit_simps)

lemma calibrateEnd_regs:
  "regs (snd (calibrateEnd h (c, w))) =
     (regs w)
       (MAG_OFF_X_LSB h := low_byte (midpoint (x (maxSample c)) (x (minSample c))),
        MAG_OFF_X_MSB h := high_byte (midpoint (x (maxSample c)) (x (minSample c))),
        MAG_OFF_Y_LSB h := low_byte (midpoint (y (maxSample c)) (y (minSample c))),
        MAG_OFF_Y_MSB h := high_byte (midpoint (y (maxSample c)) (y (minSample c))),
        MAG_OFF_Z_LSB h := low_byte (midpoint (z (maxSample c)) (z (minSample c))),
        MAG_OFF_Z_MSB h := high_byte (midpoint (z (maxSample c)) (z (minSample c))))"
  by (simp add: calibrateEnd_def Let_def writeCommand_def MicroBitEvent_def)

lemma calibrateEnd_read_back:
  assumes adj: "offset_regs_adjacent h"
    and dist: "distinct [MAG_OFF_X_LSB h, MAG_OFF_X_MSB h, MAG_OFF_Y_LSB h, MAG_OFF_Y_MSB h,
                         MAG_OFF_Z_LSB h, MAG_OFF_Z_MSB h]"
  shows "read16 (snd (calibrateEnd h (c, w))) (MAG_OFF_X_MSB h) =
           x (average (fst (calibrateEnd h (c, w))))"
    and "read16 (snd (calibrateEnd h (c, w))) (MAG_OFF_Y_MSB h) =
           y (average (fst (calibrateEnd h (c, w))))"
    and "read16 (snd (calibrateEnd h (c, w))) (MAG_OFF_Z_MSB h) =
           z (average (fst (calibrateEnd h (c, w))))"
proof -
  have nxt: "MAG_OFF_X_MSB h + 1 = MAG_OFF_X_LSB h" "MAG_OFF_Y_MSB h + 1 = MAG_OFF_Y_LSB h"
    "MAG_OFF_Z_MSB h + 1 = MAG_OFF_Z_LSB h"
    using adj by (simp_all add: offset_regs_adjacent_def)
  show "read16 (snd (calibrateEnd h (c, w))) (MAG_OFF_X_MSB h) =
           x (average (fst (calibrateEnd h (c, w))))"
    using dist by (simp add: read16_def nxt calibrateEnd_regs calibrateEnd_compass read16_of_bytes)
  show "read16 (snd (calibrateEnd h (c, w))) (MAG_OFF_Y_MSB h) =
           y (average (fst (calibrateEnd h (c, w))))"
    using dist by (simp add: read16_def nxt calibrateEnd_regs calibrateEnd_compass read16_of_bytes)
  show "read16 (snd (calibrateEnd h (c, w))) (MAG_OFF_Z_MSB h) =
           z (average (fst (calibrateEnd h (c, w))))"
    using dist by (simp add: read16_def nxt calibrateEnd_regs calibrateEnd_compass read16_of_bytes)
qed

text \<open>
  Claim C10. \<^verbatim>\<open>calibrateEnd\<close> does not look at the calibration state. Called on a
  compass whose calibrating flag is clear, it sets the offset of each axis to the sum
  of whatever \<^verbatim>\<open>minSample\<close> and \<^verbatim>\<open>maxSample\<close> hold on that axis, divided by two
  toward zero, leaves the calibrating flag clear, sets the calibrated flag, sends the
  low and the high byte of each offset to the six offset registers and fires the
  calibration-end event. Where the six registers are distinct and each low byte
  follows its high byte, reading the three offsets back returns the new offset. The
  witness runs it on a compass that has just been constructed.
\<close>

theorem calibrateEnd_unguarded:
  "status_bits_ok h \<Longrightarrow> isCalibrating h c = 0 \<Longrightarrow>
     sint (x (average (fst (calibrateEnd h (c, w))))) =
       (sint (x (minSample c)) + sint (x (maxSample c))) sdiv 2 \<and>
     sint (y (average (fst (calibrateEnd h (c, w))))) =
       (sint (y (minSample c)) + sint (y (maxSample c))) sdiv 2 \<and>
     sint (z (average (fst (calibrateEnd h (c, w))))) =
       (sint (z (minSample c)) + sint (z (maxSample c))) sdiv 2 \<and>
     isCalibrating h (fst (calibrateEnd h (c, w))) = 0 \<and>
     isCalibrated h (fst (calibrateEnd h (c, w))) \<noteq> 0 \<and>
     bus (snd (calibrateEnd h (c, w))) =
       bus w @
       [(address c, MAG_OFF_X_LSB h, ucast (x (average (fst (calibrateEnd h (c, w)))))),
        (address c, MAG_OFF_X_MSB h,
           ucast (drop_bit 8 (x (average (fst (calibrateEnd h (c, w))))))),
        (address c, MAG_OFF_Y_LSB h, ucast (y (average (fst (calibrateEnd h (c, w)))))),
        (address c, MAG_OFF_Y_MSB h,
           ucast (drop_bit 8 (y (average (fst (calibrateEnd h (c, w))))))),
        (address c, MAG_OFF_Z_LSB h, ucast (z (average (fst (calibrateEnd h (c, w)))))),
        (address c, MAG_OFF_Z_MSB h,
           ucast (drop_bit 8 (z (average (fst (calibrateEnd h (c, w)))))))] \<and>
     (offset_regs_adjacent h \<and>
      distinct [MAG_OFF_X_LSB h, MAG_OFF_X_MSB h, MAG_OFF_Y_LSB h, MAG_OFF_Y_MSB h,
                MAG_OFF_Z_LSB h, MAG_OFF_Z_MSB h] \<longrightarrow>
        read16 (snd (calibrateEnd h (c, w))) (MAG_OFF_X_MSB h) =
          x (average (fst (calibrateEnd h (c, w)))) \<and>
        read16 (snd (calibrateEnd h (c, w))) (MAG_OFF_Y_MSB h) =
          y (average (fst (calibrateEnd h (c, w)))) \<and>
        read16 (snd (calibrateEnd h (c, w))) (MAG_OFF_Z_MSB h) =
          z (average (fst (calibrateEnd h (c, w))))) \<and>
     events (snd (calibrateEnd h (c, w))) =
       events w @ [(id_compass c, MICROBIT_COMPASS_EVT_CAL_END h)]"
proof -
  assume ok: "status_bits_ok h"
  note d = status_bits_okD(1) [OF ok] and one = status_bits_okD(2) [OF ok]
  have avg: "sint (x (average (fst (calibrateEnd h (c, w))))) =
       (sint (x (minSample c)) + sint (x (maxSample c))) sdiv 2 \<and>
     sint (y (average (fst (calibrateEnd h (c, w))))) =
       (sint (y (minSample c)) + sint (y (maxSample c))) sdiv 2 \<and>
     sint (z (average (fst (calibrateEnd h (c, w))))) =
       (sint (z (minSample c)) + sint (z (maxSample c))) sdiv 2"
    by (simp add: calibrateEnd_compass sint_midpoint add.commute)
  have flags: "isCalibrating h (fst (calibrateEnd h (c, w))) = 0 \<and>
     isCalibrated h (fst (calibrateEnd h (c, w))) \<noteq> 0"
    by (simp add: calibrateEnd_compass isCalibrating_def isCalibrated_def
        status_after_end [OF d] uint_0_iff one)
  have sent: "bus (snd (calibrateEnd h (c, w))) =
       bus w @
       [(address c, MAG_OFF_X_LSB h, ucast (x (average (fst (calibrateEnd h (c, w)))))),
        (address c, MAG_OFF_X_MSB h,
           ucast (drop_bit 8 (x (average (fst (calibrateEnd h (c, w))))))),
        (address c, MAG_OFF_Y_LSB h, ucast (y (average (fst (calibrateEnd h (c, w)))))),
        (address c, MAG_OFF_Y_MSB h,
           ucast (drop_bit 8 (y (average (fst (calibrateEnd h (c, w))))))),
        (address c, MAG_OFF_Z_LSB h, ucast (z (average (fst (calibrateEnd h (c, w)))))),
        (address c, MAG_OFF_Z_MSB h,
           ucast (drop_bit 8 (z (average (fst (calibrateEnd h (c, w)))))))]"
    by (simp add: calibrateEnd_compass calibrateEnd_bus low_byte_ucast high_byte_ucast)
  note rb = calibrateEnd_read_back [of h c w]
  note ev = calibrateEnd_events [of h c w]
  from avg flags sent rb ev show ?thesis by blast
qed

theorem calibrateEnd_unguarded_witness:
  "status_bits_ok example_header \<and>
   offset_regs_adjacent example_header \<and>
   distinct [MAG_OFF_X_LSB example_header, MAG_OFF_X_MSB example_header,
             MAG_OFF_Y_LSB example_header, MAG_OFF_Y_MSB example_header,
             MAG_OFF_Z_LSB example_header, MAG_OFF_Z_MSB example_header] \<and>
   isCalibrating example_header
     (fst (MicroBitCompass_new example_header 5 0x1D \<lparr>x = - 5, y = 7, z = - 8\<rparr>
        \<lparr>x = 0, y = 10, z = - 1\<rparr> example_world)) = 0 \<and>
   sint (x (average (fst (calibrateEnd example_header
     (MicroBitCompass_new example_header 5 0x1D \<lparr>x = - 5, y = 7, z = - 8\<rparr>
        \<lparr>x = 0, y = 10, z = - 1\<rparr> example_world))))) = - 2 \<and>
   sint (y (average (fst (calibrateEnd example_header
     (MicroBitCompass_new example_header 5 0x1D \<lparr>x = - 5, y = 7, z = - 8\<rparr>
        \<lparr>x = 0, y = 10, z = - 1\<rparr> example_world))))) = 8 \<and>
   sint (z (average (fst (calibrateEnd example_header
     (MicroBitCompass_new example_header 5 0x1D \<lparr>x = - 5, y = 7, z = - 8\<rparr>
        \<lparr>x = 0, y = 10, z = - 1\<rparr> example_world))))) = - 4 \<and>
   isCalibrating example_header (fst (calibrateEnd example_header
     (MicroBitCompass_new example_header 5 0x1D \<lparr>x = - 5, y = 7, z = - 8\<rparr>
        \<lparr>x = 0, y = 10, z = - 1\<rparr> example_world))) = 0 \<and>
   isCalibrated example_header (fst (calibrateEnd example_header
     (MicroBitCompass_new example_header 5 0x1D \<lparr>x = - 5, y = 7, z = - 8\<rparr>
        \<lparr>x = 0, y = 10, z = - 1\<rparr> example_world))) \<noteq> 0 \<and>
   bus (snd (calibrateEnd example_header
     (MicroBitCompass_new example_header 5 0x1D \<lparr>x = - 5, y = 7, z = - 8\<rparr>
        \<lparr>x = 0, y = 10, z = - 1\<rparr> example_world))) =
     [(0x1D, 0x11, 0xA0), (0x1D, 0x10, 0x61),
      (0x1D, 0x0A, 0xFE), (0x1D, 0x09, 0xFF), (0x1D, 0x0C, 0x08), (0x1D, 0x0B, 0x00),
      (0x1D, 0x0E, 0xFC), (0x1D, 0x0D, 0xFF)] \<and>
   sint (read16 (snd (calibrateEnd example_header
     (MicroBitCompass_new example_header 5 0x1D \<lparr>x = - 5, y = 7, z = - 8\<rparr>
        \<lparr>x = 0, y = 10, z = - 1\<rparr> example_world))) 0x09) = - 2 \<and>
   sint (read16 (snd (calibrateEnd example_header
     (MicroBitCompass_new example_header 5 0x1D \<lparr>x = - 5, y = 7, z = - 8\<rparr>
        \<lparr>x = 0, y = 10, z = - 1\<rparr> example_world))) 0x0B) = 8 \<and>
   sint (read16 (snd (calibrateEnd example_header
     (MicroBitCompass_new example_header 5 0x1D \<lparr>x = - 5, y = 7, z = - 8\<rparr>
        \<lparr>x = 0, y = 10, z = - 1\<rparr> example_world))) 0x0D) = - 4 \<and>
   events (snd (calibrateEnd example_header
     (MicroBitCompass_new example_header 5 0x1D \<lparr>x = - 5, y = 7, z = - 8\<rparr>
        \<lparr>x = 0, y = 10, z = - 1\<rparr> example_world))) = [(5, 3)]"
proof -
  define c where "c = fst (MicroBitCompass_new example_header 5 0x1D \<lparr>x = - 5, y = 7, z = - 8\<rparr>
        \<lparr>x = 0, y = 10, z = - 1\<rparr> example_world)"
  define w where "w = snd (MicroBitCompass_new example_header 5 0x1D \<lparr>x = - 5, y = 7, z = - 8\<rparr>
        \<lparr>x = 0, y = 10, z = - 1\<rparr> example_world)"
  have cw: "MicroBitCompass_new example_header 5 0x1D \<lparr>x = - 5, y = 7, z = - 8\<rparr>
        \<lparr>x = 0, y = 10, z = - 1\<rparr> example_world = (c, w)"
    by (simp add: c_def w_def)
  have c: "c = \<lparr>id_compass = 5, address = 0x1D, status = 0x00, eventStartTime = 0,
      average = zeroSample, sample = zeroSample,
      minSample = \<lparr>x = - 5, y = 7, z = - 8\<rparr>, maxSample = \<lparr>x = 0, y = 10, z = - 1\<rparr>\<rparr>"
    by (simp add: c_def MicroBitCompass_new_def Let_def writeCommand_def read16_def
        example_world_def example_header_def zeroSample_def)
  have w: "events w = []" "bus w = [(0x1D, 0x11, 0xA0), (0x1D, 0x10, 0x61)]"
    by (simp_all add: w_def MicroBitCompass_new_def Let_def writeCommand_def example_world_def
        example_header_def)
  have pre: "isCalibrating example_header c = 0"
    by (simp add: c isCalibrating_def)
  have regs: "offset_regs_adjacent example_header"
    "distinct [MAG_OFF_X_LSB example_header, MAG_OFF_X_MSB example_header,
             MAG_OFF_Y_LSB example_header, MAG_OFF_Y_MSB example_header,
             MAG_OFF_Z_LSB example_header, MAG_OFF_Z_MSB example_header]"
    by (simp_all add: offset_regs_adjacent_def example_header_def)
  have k: "MAG_OFF_X_MSB example_header = 0x09" "MAG_OFF_X_LSB example_header = 0x0A"
    "MAG_OFF_Y_MSB example_header = 0x0B" "MAG_OFF_Y_LSB example_header = 0x0C"
    "MAG_OFF_Z_MSB example_header = 0x0D" "MAG_OFF_Z_LSB example_header = 0x0E"
    "MICROBIT_COMPASS_EVT_CAL_END example_header = 3"
    by (simp_all add: example_header_def)
  have f: "address c = 0x1D" "id_compass c = 5"
    "sint (x (minSample c)) = - 5" "sint (x (maxSample c)) = 0"
    "sint (y (minSample c)) = 7" "sint (y (maxSample c)) = 10"
    "sint (z (minSample c)) = - 8" "sint (z (maxSample c)) = - 1"
    by (simp_all add: c)
  have avg: "average (fst (calibrateEnd example_header (c, w))) = \<lparr>x = - 2, y = 8, z = - 4\<rparr>"
    by (simp add: calibrateEnd_compass c midpoint_def signed_divide_int_def)
  have bytes:
    "ucast (- 2 :: 16 word) = (0xFE :: 8 word)"
    "ucast (drop_bit 8 (- 2 :: 16 word)) = (0xFF :: 8 word)"
    "ucast (drop_bit 8 (8 :: 16 word)) = (0 :: 8 word)"
    "ucast (- 4 :: 16 word) = (0xFC :: 8 word)"
    "ucast (drop_bit 8 (- 4 :: 16 word)) = (0xFF :: 8 word)"
    by code_simp+
  show ?thesis
    unfolding cw
    using calibrateEnd_unguarded [OF example_header_ok pre, of w] regs
    unfolding avg
    by (simp add: bytes k f w pre example_header_ok signed_divide_int_def)
qed

section \<open>Starting a calibration\<close>

text \<open>
  Claim C6. \<^verbatim>\<open>calibrateStart\<close> on a compass whose calibrating flag is set changes
  nothing: the object and the world are returned as they were, so the two extents and
  the status are the same and no event has been fired.
\<close>

theorem calibrateStart_idempotent:
  "isCalibrating h c \<noteq> 0 \<Longrightarrow>
     calibrateStart h (c, w) = (c, w) \<and>
     minSample (fst (calibrateStart h (c, w))) = minSample c \<and>
     maxSample (fst (calibrateStart h (c, w))) = maxSample c \<and>
     status (fst (calibrateStart h (c, w))) = status c \<and>
     events (snd (calibrateStart h (c, w))) = events w"
  by (simp add: calibrateStart_def)

theorem calibrateStart_idempotent_witness:
  "isCalibrating example_header (example_compass\<lparr>status := 0x02\<rparr>) \<noteq> 0 \<and>
   calibrateStart example_header (example_compass\<lparr>status := 0x02\<rparr>, example_world) =
     (example_compass\<lparr>status := 0x02\<rparr>, example_world)"
proof -
  have pre: "isCalibrating example_header (example_compass\<lparr>status := 0x02\<rparr>) \<noteq> 0"
    by (simp add: isCalibrating_def example_header_def)
  show ?thesis
    using pre calibrateStart_idempotent [OF pre, of example_world] by simp
qed


section \<open>Clearing the calibration\<close>

lemma read16_zero: "regs w r = 0 \<Longrightarrow> regs w (r + 1) = 0 \<Longrightarrow> read16 w r = 0"
  by (simp add: read16_def)

lemma clearCalibration_compass:
  "fst (clearCalibration h (c, w)) =
     c\<lparr>status := status c AND NOT (MICROBIT_COMPASS_STATUS_CALIBRATED h)\<rparr>"
  by (simp add: clearCalibration_def Let_def)

lemma clearCalibration_bus:
  "bus (snd (clearCalibration h (c, w))) =
     bus w @
     [(address c, MAG_OFF_X_LSB h, 0), (address c, MAG_OFF_X_MSB h, 0),
      (address c, MAG_OFF_Y_LSB h, 0), (address c, MAG_OFF_Y_MSB h, 0),
      (address c, MAG_OFF_Z_LSB h, 0), (address c, MAG_OFF_Z_MSB h, 0)]"
  by (simp add: clearCalibration_def Let_def writeCommand_def)

lemma clearCalibration_regs:
  "r \<in> {MAG_OFF_X_LSB h, MAG_OFF_X_MSB h, MAG_OFF_Y_LSB h, MAG_OFF_Y_MSB h,
         MAG_OFF_Z_LSB h, MAG_OFF_Z_MSB h} \<Longrightarrow>
   regs (snd (clearCalibration h (c, w))) r = 0"
  by (auto simp add: clearCalibration_def Let_def writeCommand_def)

text \<open>
  Claim C7. From any state \<^verbatim>\<open>clearCalibration\<close> leaves zero in each of the six
  offset registers, by six writes of zero, clears the calibrated flag and leaves the
  value of \<^verbatim>\<open>isCalibrating\<close> as it was. Where each offset's low byte follows its
  high byte, the three offsets read back as zero.
\<close>

theorem clearCalibration_frame:
  "status_bits_ok h \<Longrightarrow>
     (\<forall>r \<in> {MAG_OFF_X_LSB h, MAG_OFF_X_MSB h, MAG_OFF_Y_LSB h, MAG_OFF_Y_MSB h,
             MAG_OFF_Z_LSB h, MAG_OFF_Z_MSB h}.
        regs (snd (clearCalibration h (c, w))) r = 0) \<and>
     (offset_regs_adjacent h \<longrightarrow>
        read16 (snd (clearCalibration h (c, w))) (MAG_OFF_X_MSB h) = 0 \<and>
        read16 (snd (clearCalibration h (c, w))) (MAG_OFF_Y_MSB h) = 0 \<and>
        read16 (snd (clearCalibration h (c, w))) (MAG_OFF_Z_MSB h) = 0) \<and>
     bus (snd (clearCalibration h (c, w))) =
       bus w @
       [(address c, MAG_OFF_X_LSB h, 0), (address c, MAG_OFF_X_MSB h, 0),
        (address c, MAG_OFF_Y_LSB h, 0), (address c, MAG_OFF_Y_MSB h, 0),
        (address c, MAG_OFF_Z_LSB h, 0), (address c, MAG_OFF_Z_MSB h, 0)] \<and>
     isCalibrated h (fst (clearCalibration h (c, w))) = 0 \<and>
     isCalibrating h (fst (clearCalibration h (c, w))) = isCalibrating h c"
proof -
  assume ok: "status_bits_ok h"
  note d = status_bits_okD(1) [OF ok]
  have r: "\<forall>r \<in> {MAG_OFF_X_LSB h, MAG_OFF_X_MSB h, MAG_OFF_Y_LSB h, MAG_OFF_Y_MSB h,
             MAG_OFF_Z_LSB h, MAG_OFF_Z_MSB h}.
        regs (snd (clearCalibration h (c, w))) r = 0"
    using clearCalibration_regs by blast
  have rd: "read16 (snd (clearCalibration h (c, w))) (MAG_OFF_X_MSB h) = 0 \<and>
        read16 (snd (clearCalibration h (c, w))) (MAG_OFF_Y_MSB h) = 0 \<and>
        read16 (snd (clearCalibration h (c, w))) (MAG_OFF_Z_MSB h) = 0"
   if adj: "offset_regs_adjacent h"
  proof -
    have "MAG_OFF_X_MSB h + 1 = MAG_OFF_X_LSB h" "MAG_OFF_Y_MSB h + 1 = MAG_OFF_Y_LSB h"
      "MAG_OFF_Z_MSB h + 1 = MAG_OFF_Z_LSB h"
      using adj by (simp_all add: offset_regs_adjacent_def)
    then show ?thesis
      by (intro conjI read16_zero) (simp_all add: clearCalibration_regs)
  qed
  have f: "isCalibrated h (fst (clearCalibration h (c, w))) = 0"
    by (simp add: clearCalibration_compass isCalibrated_def clear_then_test)
  have g: "isCalibrating h (fst (clearCalibration h (c, w))) = isCalibrating h c"
    by (simp add: clearCalibration_compass isCalibrating_def clear_other_bit [OF d])
  from r rd f g clearCalibration_bus [of h c w] show ?thesis by blast
qed

theorem clearCalibration_frame_witness:
  "status_bits_ok example_header \<and> offset_regs_adjacent example_header \<and>
   read16 calibrated_world 0x09 = 300 \<and>
   regs (snd (clearCalibration example_header
     (example_compass\<lparr>status := 0x03\<rparr>, calibrated_world))) 0x09 = 0 \<and>
   regs (snd (clearCalibration example_header
     (example_compass\<lparr>status := 0x03\<rparr>, calibrated_world))) 0x0A = 0 \<and>
   read16 (snd (clearCalibration example_header
     (example_compass\<lparr>status := 0x03\<rparr>, calibrated_world))) 0x09 = 0 \<and>
   isCalibrated example_header (fst (clearCalibration example_header
     (example_compass\<lparr>status := 0x03\<rparr>, calibrated_world))) = 0 \<and>
   isCalibrating example_header (fst (clearCalibration example_header
     (example_compass\<lparr>status := 0x03\<rparr>, calibrated_world))) = 2"
proof -
  have k: "MAG_OFF_X_MSB example_header = 0x09" "MAG_OFF_X_LSB example_header = 0x0A"
    by (simp_all add: example_header_def)
  have b: "isCalibrating example_header (example_compass\<lparr>status := 0x03\<rparr>) = 2"
    by (simp add: isCalibrating_def example_header_def)
  have r: "read16 calibrated_world 0x09 = 300"
    by (simp add: read16_def calibrated_world_def)
  from clearCalibration_frame [OF example_header_ok,
      of "example_compass\<lparr>status := 0x03\<rparr>" calibrated_world]
  show ?thesis
    by (simp add: k b r example_header_ok example_header_adjacent)
qed

section \<open>The state after construction\<close>

lemma read16_regs: "regs w' = regs w \<Longrightarrow> read16 w' r = read16 w r"
  by (simp add: read16_def)

lemma MicroBitCompass_new_average:
  "average (fst (MicroBitCompass_new h i a m0 m1 w)) =
     \<lparr>x = read16 (snd (MicroBitCompass_new h i a m0 m1 w)) (MAG_OFF_X_MSB h),
      y = read16 (snd (MicroBitCompass_new h i a m0 m1 w)) (MAG_OFF_Y_MSB h),
      z = read16 (snd (MicroBitCompass_new h i a m0 m1 w)) (MAG_OFF_Z_MSB h)\<rparr>"
  by (simp add: MicroBitCompass_new_def Let_def read16_def)

lemma MicroBitCompass_new_status:
  "status (fst (MicroBitCompass_new h i a m0 m1 w)) =
     (if read16 (snd (MicroBitCompass_new h i a m0 m1 w)) (MAG_OFF_X_MSB h) = 0 \<and>
         read16 (snd (MicroBitCompass_new h i a m0 m1 w)) (MAG_OFF_Y_MSB h) = 0 \<and>
         read16 (snd (MicroBitCompass_new h i a m0 m1 w)) (MAG_OFF_Z_MSB h) = 0
      then 0x01 AND NOT (MICROBIT_COMPASS_STATUS_CALIBRATED h) else 0x01)"
  by (simp add: MicroBitCompass_new_def Let_def read16_def)

lemma MicroBitCompass_new_fields:
  "eventStartTime (fst (MicroBitCompass_new h i a m0 m1 w)) = 0"
  "id_compass (fst (MicroBitCompass_new h i a m0 m1 w)) = i"
  "address (fst (MicroBitCompass_new h i a m0 m1 w)) = a"
  "minSample (fst (MicroBitCompass_new h i a m0 m1 w)) = m0"
  "maxSample (fst (MicroBitCompass_new h i a m0 m1 w)) = m1"
  "sample (fst (MicroBitCompass_new h i a m0 m1 w)) = zeroSample"
  by (simp_all add: MicroBitCompass_new_def Let_def)

lemma MicroBitCompass_new_not_calibrating:
  assumes "status_bits_ok h"
  shows "isCalibrating h (fst (MicroBitCompass_new h i a m0 m1 w)) = 0"
proof -
  note d = status_bits_okD(1) [OF assms] and one = status_bits_okD(4) [OF assms]
  have g: "1 AND MICROBIT_COMPASS_STATUS_CALIBRATING h = 0"
    using d by (simp add: one and.commute)
  show ?thesis
    by (simp add: MicroBitCompass_new_status isCalibrating_def one g)
qed

text \<open>
  Claim C8. The constructor reads the three offsets back from the sensor and keeps
  them as \<^verbatim>\<open>average\<close>. The new compass is calibrated if and only if one of the three
  values read is not zero; it is never calibrating, and its calibration start time is
  zero.
\<close>

theorem constructor_initial_state:
  "status_bits_ok h \<Longrightarrow>
     average (fst (MicroBitCompass_new h i a m0 m1 w)) =
       \<lparr>x = read16 (snd (MicroBitCompass_new h i a m0 m1 w)) (MAG_OFF_X_MSB h),
        y = read16 (snd (MicroBitCompass_new h i a m0 m1 w)) (MAG_OFF_Y_MSB h),
        z = read16 (snd (MicroBitCompass_new h i a m0 m1 w)) (MAG_OFF_Z_MSB h)\<rparr> \<and>
     (isCalibrated h (fst (MicroBitCompass_new h i a m0 m1 w)) \<noteq> 0 \<longleftrightarrow>
        read16 (snd (MicroBitCompass_new h i a m0 m1 w)) (MAG_OFF_X_MSB h) \<noteq> 0 \<or>
        read16 (snd (MicroBitCompass_new h i a m0 m1 w)) (MAG_OFF_Y_MSB h) \<noteq> 0 \<or>
        read16 (snd (MicroBitCompass_new h i a m0 m1 w)) (MAG_OFF_Z_MSB h) \<noteq> 0) \<and>
     isCalibrating h (fst (MicroBitCompass_new h i a m0 m1 w)) = 0 \<and>
     eventStartTime (fst (MicroBitCompass_new h i a m0 m1 w)) = 0"
proof -
  assume ok: "status_bits_ok h"
  note one = status_bits_okD(4) [OF ok]
  show ?thesis
    by (simp add: MicroBitCompass_new_average MicroBitCompass_new_status
        MicroBitCompass_new_fields MicroBitCompass_new_not_calibrating [OF ok]
        isCalibrated_def one)
qed

theorem constructor_initial_state_witness:
  "status_bits_ok example_header \<and>
   read16 (snd (MicroBitCompass_new example_header 5 0x1D zeroSample zeroSample calibrated_world))
     (MAG_OFF_X_MSB example_header) = 300 \<and>
   isCalibrated example_header
     (fst (MicroBitCompass_new example_header 5 0x1D zeroSample zeroSample calibrated_world)) \<noteq> 0 \<and>
   isCalibrating example_header
     (fst (MicroBitCompass_new example_header 5 0x1D zeroSample zeroSample calibrated_world)) = 0 \<and>
   average
     (fst (MicroBitCompass_new example_header 5 0x1D zeroSample zeroSample example_world)) =
     \<lparr>x = 0, y = 0, z = 0\<rparr> \<and>
   isCalibrated example_header
     (fst (MicroBitCompass_new example_header 5 0x1D zeroSample zeroSample example_world)) = 0 \<and>
   isCalibrating example_header
     (fst (MicroBitCompass_new example_header 5 0x1D zeroSample zeroSample example_world)) = 0"
proof -
  have r: "read16 (snd (MicroBitCompass_new example_header 5 0x1D zeroSample zeroSample calibrated_world))
     (MAG_OFF_X_MSB example_header) = 300"
    by (simp add: MicroBitCompass_new_def Let_def writeCommand_def read16_def
        calibrated_world_def example_header_def)
  have r0: "read16 (snd (MicroBitCompass_new example_header 5 0x1D zeroSample zeroSample example_world))
     (MAG_OFF_X_MSB example_header) = 0"
    "read16 (snd (MicroBitCompass_new example_header 5 0x1D zeroSample zeroSample example_world))
     (MAG_OFF_Y_MSB example_header) = 0"
    "read16 (snd (MicroBitCompass_new example_header 5 0x1D zeroSample zeroSample example_world))
     (MAG_OFF_Z_MSB example_header) = 0"
    by (simp_all add: MicroBitCompass_new_def Let_def writeCommand_def read16_def
        example_world_def example_header_def)
  from constructor_initial_state [OF example_header_ok, of 5 "0x1D" zeroSample zeroSample calibrated_world]
    constructor_initial_state [OF example_header_ok, of 5 "0x1D" zeroSample zeroSample example_world]
  show ?thesis
    by (simp add: r r0 example_header_ok)
qed

section \<open>The sentinels of \<open>heading\<close>\<close>

text \<open>
  Claim C5. With the calibrating flag set, \<^verbatim>\<open>heading\<close> returns the calibrating
  sentinel and fires nothing, whatever the calibrated flag is. With both flags clear
  it fires the calibration-required event and returns the calibration-required
  sentinel. It fires an event in no other case.
\<close>

theorem heading_sentinel_priority:
  "(isCalibrating h c \<noteq> 0 \<longrightarrow>
      heading h (c, w) = (MICROBIT_COMPASS_IS_CALIBRATING h, w)) \<and>
   (isCalibrating h c = 0 \<and> isCalibrated h c = 0 \<longrightarrow>
      heading h (c, w) =
        (MICROBIT_COMPASS_CALIBRATE_REQUIRED h,
         w\<lparr>events := events w @ [(id_compass c, MICROBIT_COMPASS_EVT_CAL_REQUIRED h)]\<rparr>)) \<and>
   (events (snd (heading h (c, w))) \<noteq> events w \<longrightarrow>
      isCalibrating h c = 0 \<and> isCalibrated h c = 0)"
  by (simp add: heading_def isCalibrating_def isCalibrated_def uint_0_iff MicroBitEvent_def)

theorem heading_sentinel_priority_witness:
  "isCalibrating example_header (example_compass\<lparr>status := 0x03\<rparr>) \<noteq> 0 \<and>
   isCalibrated example_header (example_compass\<lparr>status := 0x03\<rparr>) \<noteq> 0 \<and>
   heading example_header (example_compass\<lparr>status := 0x03\<rparr>, example_world) =
     (- 2, example_world) \<and>
   isCalibrating example_header example_compass = 0 \<and>
   isCalibrated example_header example_compass = 0 \<and>
   heading example_header (example_compass, example_world) =
     (- 1, example_world\<lparr>events := [(5, 1)]\<rparr>) \<and>
   events (snd (heading example_header (example_compass, example_world))) \<noteq>
     events example_world"
proof -
  have a: "isCalibrating example_header (example_compass\<lparr>status := 0x03\<rparr>) \<noteq> 0"
      "isCalibrated example_header (example_compass\<lparr>status := 0x03\<rparr>) \<noteq> 0"
    by (simp_all add: isCalibrating_def isCalibrated_def example_header_def)
  have b: "isCalibrating example_header example_compass = 0"
      "isCalibrated example_header example_compass = 0"
    by (simp_all add: isCalibrating_def isCalibrated_def example_compass_def)
  have k: "MICROBIT_COMPASS_IS_CALIBRATING example_header = - 2"
      "MICROBIT_COMPASS_CALIBRATE_REQUIRED example_header = - 1"
      "MICROBIT_COMPASS_EVT_CAL_REQUIRED example_header = 1"
      "id_compass example_compass = 5" "events example_world = []"
    by (simp_all add: example_header_def example_compass_def example_world_def)
  from heading_sentinel_priority [of example_header "example_compass\<lparr>status := 0x03\<rparr>" example_world]
    heading_sentinel_priority [of example_header example_compass example_world]
  show ?thesis
    by (simp add: a b k)
qed

section \<open>The two status flags\<close>








lemma isCalibrated_eventStartTime [simp]:
  "isCalibrated h (c\<lparr>eventStartTime := t\<rparr>) = isCalibrated h c"
  by (simp add: isCalibrated_def)




section \<open>The deadline of an asynchronous calibration\<close>

lemma calibrateAsync_state:
  assumes "status_bits_ok h"
  shows "isCalibrating h (fst (calibrateAsync h (c, w))) \<noteq> 0"
    and "eventStartTime (fst (calibrateAsync h (c, w))) = ticks w"
proof -
  note nz = status_bits_okD(3) [OF assms]
  show "isCalibrating h (fst (calibrateAsync h (c, w))) \<noteq> 0"
    using nz
    by (simp add: calibrateAsync_def calibrateStart_def Let_def isCalibrating_def
        uint_0_iff set_then_test)
  show "eventStartTime (fst (calibrateAsync h (c, w))) = ticks w"
    by (simp add: calibrateAsync_def calibrateStart_def Let_def)
qed

lemma idleTick_not_ready: "\<not> int1 w \<Longrightarrow> idleTick h (c, w) = (c, w)"
  by (simp add: idleTick_def)

lemma idleTick_not_due:
  assumes "\<not> (eventStartTime c \<noteq> 0 \<and>
              eventStartTime c + MICROBIT_COMPASS_CALIBRATE_PERIOD h < ticks w)"
  shows "status (fst (idleTick h (c, w))) = status c"
    and "eventStartTime (fst (idleTick h (c, w))) = eventStartTime c"
  using assms by (auto simp add: idleTick_def Let_def)

lemma idleTick_due:
  assumes "int1 w" and "isCalibrating h c \<noteq> 0" and "eventStartTime c \<noteq> 0"
    and "eventStartTime c + MICROBIT_COMPASS_CALIBRATE_PERIOD h < ticks w"
  shows "idleTick h (c, w) =
     calibrateEnd h
       (c\<lparr>sample := \<lparr>x = read16 w (MAG_OUT_X_MSB h),
                      y = read16 w (MAG_OUT_Y_MSB h),
                      z = read16 w (MAG_OUT_Z_MSB h)\<rparr>,
          minSample := \<lparr>x = min16 (read16 w (MAG_OUT_X_MSB h)) (x (minSample c)),
                         y = min16 (read16 w (MAG_OUT_Y_MSB h)) (y (minSample c)),
                         z = min16 (read16 w (MAG_OUT_Z_MSB h)) (z (minSample c))\<rparr>,
          maxSample := \<lparr>x = max16 (read16 w (MAG_OUT_X_MSB h)) (x (maxSample c)),
                         y = max16 (read16 w (MAG_OUT_Y_MSB h)) (y (maxSample c)),
                         z = max16 (read16 w (MAG_OUT_Z_MSB h)) (z (maxSample c))\<rparr>,
          eventStartTime := 0\<rparr>, w)"
  using assms by (simp add: idleTick_def Let_def isCalibrating_iff)

lemma calibrateEnd_flags:
  assumes "status_bits_ok h"
  shows "isCalibrating h (fst (calibrateEnd h (c, w))) = 0"
    and "isCalibrated h (fst (calibrateEnd h (c, w))) \<noteq> 0"
    and "eventStartTime (fst (calibrateEnd h (c, w))) = eventStartTime c"
  using status_bits_okD(2) [OF assms]
  by (simp_all add: calibrateEnd_compass isCalibrating_def isCalibrated_def uint_0_iff
      status_after_end [OF status_bits_okD(1) [OF assms]])

lemma no_wrap_not_due:
  fixes T W t :: "32 word"
  assumes "unat T + unat W < 2 ^ 32" and "unat t \<le> unat T + unat W"
  shows "\<not> T + W < t"
proof -
  have "unat (T + W) = unat T + unat W"
    using assms(1) by (simp add: unat_add_lem [THEN iffD1])
  with assms(2) show ?thesis by (simp add: word_less_nat_alt)
qed

lemma no_wrap_due:
  fixes T W t :: "32 word"
  assumes "unat T + unat W < unat t"
  shows "T + W < t"
proof -
  have "unat t < 2 ^ 32" using unsigned_less [of t, where 'a = nat] by simp
  with assms have "unat T + unat W < 2 ^ 32" by simp
  then have "unat (T + W) = unat T + unat W"
    by (simp add: unat_add_lem [THEN iffD1])
  with assms show ?thesis by (simp add: word_less_nat_alt)
qed

lemma poll_keeps_calibrating:
  assumes "isCalibrating h c \<noteq> 0" and "eventStartTime c = T"
    and "unat T + unat (MICROBIT_COMPASS_CALIBRATE_PERIOD h) < 2 ^ 32"
    and "ready \<longrightarrow> unat t \<le> unat T + unat (MICROBIT_COMPASS_CALIBRATE_PERIOD h)"
  shows "isCalibrating h (fst (poll h (t, ready, r) (c, w))) \<noteq> 0 \<and>
         eventStartTime (fst (poll h (t, ready, r) (c, w))) = T"
proof (cases ready)
  case False
  with assms(1,2) show ?thesis by (simp add: poll_def idleTick_not_ready)
next
  case True
  with assms(3,4) have "\<not> T + MICROBIT_COMPASS_CALIBRATE_PERIOD h < t"
    by (simp add: no_wrap_not_due)
  then have nd: "\<not> (eventStartTime c \<noteq> 0 \<and>
      eventStartTime c + MICROBIT_COMPASS_CALIBRATE_PERIOD h
        < ticks (w\<lparr>ticks := t, int1 := ready, regs := r\<rparr>))"
    by (simp add: assms(2))
  from idleTick_not_due [OF nd] assms(1,2) show ?thesis
    by (simp add: poll_def isCalibrating_def)
qed

lemma polls_keep_calibrating:
  assumes "unat T + unat (MICROBIT_COMPASS_CALIBRATE_PERIOD h) < 2 ^ 32"
  shows "isCalibrating h (fst s) \<noteq> 0 \<Longrightarrow> eventStartTime (fst s) = T \<Longrightarrow>
     \<forall>(t, ready, r) \<in> set es. ready \<longrightarrow>
        unat t \<le> unat T + unat (MICROBIT_COMPASS_CALIBRATE_PERIOD h) \<Longrightarrow>
     isCalibrating h (fst (polls h es s)) \<noteq> 0 \<and> eventStartTime (fst (polls h es s)) = T"
proof (induction es arbitrary: s)
  case Nil
  then show ?case by simp
next
  case (Cons e es)
  obtain t ready r where e: "e = (t, ready, r)" by (cases e) auto
  obtain c w where s: "s = (c, w)" by (cases s) auto
  from Cons.prems(3) have now: "ready \<longrightarrow> unat t \<le> unat T + unat (MICROBIT_COMPASS_CALIBRATE_PERIOD h)"
    and later: "\<forall>(t, ready, r) \<in> set es. ready \<longrightarrow>
        unat t \<le> unat T + unat (MICROBIT_COMPASS_CALIBRATE_PERIOD h)"
    by (simp_all add: e)
  from Cons.prems(1,2) have "isCalibrating h c \<noteq> 0" "eventStartTime c = T"
    by (simp_all add: s)
  from poll_keeps_calibrating [OF this assms now, of r w]
  have "isCalibrating h (fst (poll h e s)) \<noteq> 0" "eventStartTime (fst (poll h e s)) = T"
    by (simp_all add: e s)
  from Cons.IH [OF this later] show ?case by simp
qed

lemma poll_ends_calibration:
  assumes ok: "status_bits_ok h"
    and "isCalibrating h (fst s) \<noteq> 0" and "eventStartTime (fst s) = T" and "T \<noteq> 0"
    and "unat T + unat (MICROBIT_COMPASS_CALIBRATE_PERIOD h) < unat t"
  shows "isCalibrating h (fst (poll h (t, True, r) s)) = 0 \<and>
         isCalibrated h (fst (poll h (t, True, r) s)) \<noteq> 0 \<and>
         eventStartTime (fst (poll h (t, True, r) s)) = 0"
proof -
  obtain c w where s: "s = (c, w)" by (cases s) auto
  let ?w = "w\<lparr>ticks := t, int1 := True, regs := r\<rparr>"
  have due: "eventStartTime c + MICROBIT_COMPASS_CALIBRATE_PERIOD h < ticks ?w"
    using no_wrap_due [OF assms(5)] assms(3) by (simp add: s)
  have "int1 ?w" "isCalibrating h c \<noteq> 0" "eventStartTime c \<noteq> 0"
    using assms(2,3,4) by (simp_all add: s)
  from idleTick_due [OF this due] show ?thesis
    by (simp add: poll_def s calibrateEnd_flags [OF ok])
qed

text \<open>
  Claim C2 says that a poll with data ready at a tick of at least \<open>T + W\<close> ends the
  calibration. It fails at the tick \<open>T + W\<close> itself, the comparison in
  \<^verbatim>\<open>idleTick\<close> being strict: started at tick 5 with a window of 10000, the compass is
  still calibrating after a poll at tick 10005, and its start time is still 5.
\<close>

theorem deadline_tick_not_enough:
  "unat (ticks example_world) + unat (MICROBIT_COMPASS_CALIBRATE_PERIOD example_header)
     \<le> unat (10005 :: 32 word) \<and>
   isCalibrating example_header
     (fst (poll example_header (10005, True, regs example_world)
        (calibrateAsync example_header (example_compass, example_world)))) \<noteq> 0 \<and>
   isCalibrated example_header
     (fst (poll example_header (10005, True, regs example_world)
        (calibrateAsync example_header (example_compass, example_world)))) = 0 \<and>
   eventStartTime
     (fst (poll example_header (10005, True, regs example_world)
        (calibrateAsync example_header (example_compass, example_world)))) = 5"
  by (simp add: poll_def idleTick_def calibrateAsync_def calibrateStart_def Let_def
      isCalibrating_def isCalibrated_def MicroBitEvent_def
      example_world_def example_header_def example_compass_def)

text \<open>
  Claim C2, as amended. Let \<^verbatim>\<open>calibrateAsync\<close> be called at a tick \<open>T\<close> other than zero,
  with \<open>T + W\<close> below \<open>2\<^sup>3\<^sup>2\<close>, and let any number of polls follow, those with
  data ready at ticks up to \<open>T + W\<close>, those without at any tick. Then the compass is
  still calibrating and its start time is still \<open>T\<close>; and the next poll with data ready
  at a tick above \<open>T + W\<close> clears the calibrating flag, sets the calibrated flag and
  resets the start time to zero.
\<close>

theorem async_calibration_deadline:
  assumes "status_bits_ok h"
    and "ticks w \<noteq> 0"
    and "unat (ticks w) + unat (MICROBIT_COMPASS_CALIBRATE_PERIOD h) < 2 ^ 32"
    and "\<forall>(t, ready, r) \<in> set es. ready \<longrightarrow>
           unat t \<le> unat (ticks w) + unat (MICROBIT_COMPASS_CALIBRATE_PERIOD h)"
  shows "isCalibrating h (fst (polls h es (calibrateAsync h (c, w)))) \<noteq> 0 \<and>
         eventStartTime (fst (polls h es (calibrateAsync h (c, w)))) = ticks w \<and>
         (unat (ticks w) + unat (MICROBIT_COMPASS_CALIBRATE_PERIOD h) < unat t \<longrightarrow>
            isCalibrating h
              (fst (poll h (t, True, r) (polls h es (calibrateAsync h (c, w))))) = 0 \<and>
            isCalibrated h
              (fst (poll h (t, True, r) (polls h es (calibrateAsync h (c, w))))) \<noteq> 0 \<and>
            eventStartTime
              (fst (poll h (t, True, r) (polls h es (calibrateAsync h (c, w))))) = 0)"
proof -
  note start = calibrateAsync_state [OF assms(1), of c w]
  from polls_keep_calibrating [OF assms(3) start assms(4)]
  have keep: "isCalibrating h (fst (polls h es (calibrateAsync h (c, w)))) \<noteq> 0"
    "eventStartTime (fst (polls h es (calibrateAsync h (c, w)))) = ticks w"
    by simp_all
  from poll_ends_calibration [OF assms(1) keep assms(2)] keep
  show ?thesis by blast
qed

theorem async_calibration_deadline_witness:
  "status_bits_ok example_header \<and>
   ticks example_world = 5 \<and>
   MICROBIT_COMPASS_CALIBRATE_PERIOD example_header = 10000 \<and>
   isCalibrating example_header
     (fst (polls example_header
        [(6, True, regs example_world), (10005, True, regs example_world),
         (20000, False, regs example_world)]
        (calibrateAsync example_header (example_compass, example_world)))) \<noteq> 0 \<and>
   eventStartTime
     (fst (polls example_header
        [(6, True, regs example_world), (10005, True, regs example_world),
         (20000, False, regs example_world)]
        (calibrateAsync example_header (example_compass, example_world)))) = 5 \<and>
   isCalibrating example_header
     (fst (poll example_header (10006, True, regs example_world)
        (polls example_header
          [(6, True, regs example_world), (10005, True, regs example_world),
           (20000, False, regs example_world)]
          (calibrateAsync example_header (example_compass, example_world))))) = 0 \<and>
   isCalibrated example_header
     (fst (poll example_header (10006, True, regs example_world)
        (polls example_header
          [(6, True, regs example_world), (10005, True, regs example_world),
           (20000, False, regs example_world)]
          (calibrateAsync example_header (example_compass, example_world))))) \<noteq> 0 \<and>
   eventStartTime
     (fst (poll example_header (10006, True, regs example_world)
        (polls example_header
          [(6, True, regs example_world), (10005, True, regs example_world),
           (20000, False, regs example_world)]
          (calibrateAsync example_header (example_compass, example_world))))) = 0"
proof -
  have k: "ticks example_world = 5" "MICROBIT_COMPASS_CALIBRATE_PERIOD example_header = 10000"
    by (simp_all add: example_world_def example_header_def)
  have h2: "ticks example_world \<noteq> 0" by (simp add: k)
  have h3: "unat (ticks example_world) +
      unat (MICROBIT_COMPASS_CALIBRATE_PERIOD example_header) < 2 ^ 32"
    by (simp add: k)
  have h4: "\<forall>(t, ready, r) \<in> set [(6 :: 32 word, True, regs example_world),
        (10005, True, regs example_world), (20000, False, regs example_world)].
      ready \<longrightarrow> unat t \<le> unat (ticks example_world) +
        unat (MICROBIT_COMPASS_CALIBRATE_PERIOD example_header)"
    by (simp add: k)
  have h5: "unat (ticks example_world) +
      unat (MICROBIT_COMPASS_CALIBRATE_PERIOD example_header) < unat (10006 :: 32 word)"
    by (simp add: k)
  from async_calibration_deadline [OF example_header_ok h2 h3 h4,
      where t = 10006 and c = example_compass and r = "regs example_world"] h5
  show ?thesis
    by (simp add: k example_header_ok)
qed

text \<open>
  The two conditions on \<open>T\<close> are needed. A calibration started at tick zero has the
  start time that means "no deadline" and is not ended by any poll; and when \<open>T + W\<close>
  wraps around, the first poll with data ready ends the calibration at once.
\<close>

lemma async_started_at_tick_zero:
  "isCalibrating example_header
     (fst (poll example_header (20000, True, regs example_world)
        (calibrateAsync example_header (example_compass, example_world\<lparr>ticks := 0\<rparr>)))) \<noteq> 0"
  by (simp add: poll_def idleTick_def calibrateAsync_def calibrateStart_def Let_def
      isCalibrating_def MicroBitEvent_def
      example_world_def example_header_def example_compass_def)

lemma async_deadline_wraps:
  "isCalibrating example_header
     (fst (poll example_header (0xFFFFF001, True, regs example_world)
        (calibrateAsync example_header
           (example_compass, example_world\<lparr>ticks := 0xFFFFF000\<rparr>)))) = 0"
  by (simp add: poll_def idleTick_def calibrateAsync_def calibrateStart_def Let_def
      isCalibrating_def MicroBitEvent_def calibrateEnd_def writeCommand_def
      example_world_def example_header_def example_compass_def)

section \<open>The heading in degrees\<close>






lemma int_of_double_int [simp]: "int_of_double (of_int k) = k"
  by (simp add: int_of_double_def)









end
